theory Spec2Isabelle
  imports Complex_Main "HOL-Library.Sublist" "HOL-Library.AList" "HOL-Library.Multiset"
begin

section \<open>Data model (types.ts)\<close>

text \<open>
  The records follow the interfaces \<open>MaterialItem\<close> and \<open>Equipment\<close> of types.ts.
  A JavaScript number is modelled as a real: the arithmetic below is the arithmetic of the
  source's expressions over exact numbers, not over IEEE doubles. A JavaScript string is a
  \<open>string\<close>; text outside ASCII is written as its UTF-8 bytes.
  The fields \<open>id\<close> and \<open>lastModified\<close> are filled from \<open>Date.now()\<close> and
  \<open>Math.random()\<close> and no operation modelled here reads them; the records leave them out.
  The source declares \<open>name\<close> of an equipment as a string, but ExtractionView stores the
  raw value there, which may be absent, so the model keeps it optional.
  The equipment record is polymorphic in the type of its material lines: ExtractionView
  builds fully defaulted lines (\<open>material_item\<close> below), SmartImporter spreads the raw
  line into the record it builds.
\<close>

record material_item =
  item_name :: string
  material :: string
  item_specification :: string
  weight :: real
  quantity :: real
  unitPrice :: real
  totalPrice :: real
  category :: string

datatype status = Identified | Extracting | Complete | Error

record 'm equipment =
  tag :: string
  name :: "string option"
  eq_specification :: "string option"
  mainMaterial :: "string option"
  designWeight :: "real option"
  pageRange :: "string option"
  sourceFileId :: "string option"
  materials :: "'m list"
  drawings :: "string list"
  status :: status

section \<open>Cost rollup (BudgetView.tsx, EquipmentDirectory.tsx)\<close>











text \<open>
  The scenario of the specification's section 8: two material lines, used below to run the
  rollup on a concrete input.
\<close>

definition scenario_materials :: "material_item list" where
  "scenario_materials =
     [\<lparr>item_name = ''Shell'', material = ''Q345R'', item_specification = ''-'',
        weight = 10, quantity = 2, unitPrice = 5, totalPrice = 0, category = ''plate''\<rparr>,
      \<lparr>item_name = ''Nozzle N1'', material = ''S30408'', item_specification = ''-'',
        weight = 3, quantity = 1, unitPrice = 20, totalPrice = 0, category = ''pipe''\<rparr>]"



section \<open>Raw output of the extraction service (services/gemini.ts)\<close>

text \<open>
  The service answers with JSON that the source reads as \<open>any\<close>. A property of a raw
  object is modelled as an option: \<open>None\<close> is a property that is absent. Where the
  source tests a raw value for truth (\<open>x || d\<close>, \<open>!x\<close>), an absent value, the empty
  string and the number 0 are false, everything else is true.
\<close>

datatype error = ReadError | ScanError | DetailError | PricingError

record raw_material =
  r_name :: "string option"
  r_material :: "string option"
  r_specification :: "string option"
  r_weight :: "real option"
  r_quantity :: "real option"
  r_category :: "string option"

record scan_entry =
  s_tag :: "string option"
  s_name :: "string option"
  s_pageRange :: "string option"

record raw_details =
  d_tag :: "string option"
  d_name :: "string option"
  d_specification :: "string option"
  d_mainMaterial :: "string option"
  d_designWeight :: "real option"
  d_materials :: "raw_material list option"

record raw_equipment =
  e_tag :: "string option"
  e_name :: "string option"
  e_pageRange :: "string option"
  e_specification :: "string option"
  e_mainMaterial :: "string option"
  e_designWeight :: "real option"
  e_materials :: "raw_material list option"

definition truthy_str :: "string option \<Rightarrow> bool" where
  "truthy_str s = (case s of None \<Rightarrow> False | Some v \<Rightarrow> v \<noteq> [])"

definition truthy_num :: "real option \<Rightarrow> bool" where
  "truthy_num x = (case x of None \<Rightarrow> False | Some v \<Rightarrow> v \<noteq> 0)"

text \<open>\<open>x || d\<close> with a default \<open>d\<close> that is always present.\<close>

definition str_or :: "string option \<Rightarrow> string \<Rightarrow> string" where
  "str_or s d = (case s of None \<Rightarrow> d | Some v \<Rightarrow> if v = [] then d else v)"

definition num_or :: "real option \<Rightarrow> real \<Rightarrow> real" where
  "num_or x d = (case x of None \<Rightarrow> d | Some v \<Rightarrow> if v = 0 then d else v)"

text \<open>\<open>x || y\<close> where \<open>y\<close> may be absent as well.\<close>

definition str_or_opt :: "string option \<Rightarrow> string option \<Rightarrow> string option" where
  "str_or_opt a b = (if truthy_str a then a else b)"

definition num_or_opt :: "real option \<Rightarrow> real option \<Rightarrow> real option" where
  "num_or_opt a b = (if truthy_num a then a else b)"

text \<open>
  The placeholder texts of the source, as UTF-8: U+672A U+77E5 U+7EC4 U+4EF6 (unknown
  component), U+672A U+547D U+540D U+8BBE U+5907 (unnamed equipment) and
  U+5168 U+6587 U+4EF6 (whole file).
\<close>

definition unknown_component :: string where
  "unknown_component =
     [CHR 0xE6, CHR 0x9C, CHR 0xAA, CHR 0xE7, CHR 0x9F, CHR 0xA5,
      CHR 0xE7, CHR 0xBB, CHR 0x84, CHR 0xE4, CHR 0xBB, CHR 0xB6]"

definition unnamed_equipment :: string where
  "unnamed_equipment =
     [CHR 0xE6, CHR 0x9C, CHR 0xAA, CHR 0xE5, CHR 0x91, CHR 0xBD, CHR 0xE5, CHR 0x90,
      CHR 0x8D, CHR 0xE8, CHR 0xAE, CHR 0xBE, CHR 0xE5, CHR 0xA4, CHR 0x87]"

definition whole_file :: string where
  "whole_file = [CHR 0xE5, CHR 0x85, CHR 0xA8, CHR 0xE6, CHR 0x96, CHR 0x87, CHR 0xE4, CHR 0xBB, CHR 0xB6]"

text \<open>
  \<open>analyzeDrawingForMaterials\<close>: the structure scan, then one detail call per scanned
  entry. What the service answers is an input of the model: the scan either throws or
  returns entries, and every entry comes with the outcome of its detail call.
  \<open>{...eq, ...details}\<close> takes a property from \<open>details\<close> when it is there and from
  \<open>eq\<close> otherwise; a failed detail call gives \<open>{...eq, materials: []}\<close>.
\<close>

definition spread_details :: "scan_entry \<Rightarrow> raw_details \<Rightarrow> raw_equipment" where
  "spread_details eq details =
     \<lparr>e_tag = (case d_tag details of Some t \<Rightarrow> Some t | None \<Rightarrow> s_tag eq),
      e_name = (case d_name details of Some n \<Rightarrow> Some n | None \<Rightarrow> s_name eq),
      e_pageRange = s_pageRange eq,
      e_specification = d_specification details,
      e_mainMaterial = d_mainMaterial details,
      e_designWeight = d_designWeight details,
      e_materials = d_materials details\<rparr>"

definition detail_failed :: "scan_entry \<Rightarrow> raw_equipment" where
  "detail_failed eq =
     \<lparr>e_tag = s_tag eq, e_name = s_name eq, e_pageRange = s_pageRange eq,
      e_specification = None, e_mainMaterial = None, e_designWeight = None,
      e_materials = Some []\<rparr>"

type_synonym extraction = "error + (scan_entry \<times> (error + raw_details)) list"

definition analyzeDrawingForMaterials :: "extraction \<Rightarrow> error + raw_equipment list" where
  "analyzeDrawingForMaterials scan =
     (case scan of
        Inl err \<Rightarrow> Inl err
      | Inr equipments \<Rightarrow>
          Inr (map (\<lambda>(eq, detail).
                 case detail of
                   Inr details \<Rightarrow> spread_details eq details
                 | Inl _ \<Rightarrow> detail_failed eq) equipments))"

section \<open>Consolidation (ExtractionView.tsx, processQueue)\<close>

text \<open>The decimal text of an index, as a template literal prints it.\<close>

definition digit_char :: "nat \<Rightarrow> char" where
  "digit_char d = ''0123456789'' ! d"

fun show_nat :: "nat \<Rightarrow> string" where
  "show_nat n = (if n < 10 then [digit_char n] else show_nat (n div 10) @ [digit_char (n mod 10)])"

declare show_nat.simps [simp del]

text \<open>
  The material lines built from one raw equipment: \<open>(eqData.materials || []).map(...)\<close>;
  \<open>rawItem\<close> is the function that is mapped.
\<close>

definition rawItem :: "raw_material \<Rightarrow> material_item" where
  "rawItem item =
     \<lparr>item_name = str_or (r_name item) unknown_component,
      material = str_or (r_material item) ''N/A'',
      item_specification = str_or (r_specification item) ''-'',
      weight = num_or (r_weight item) 0,
      quantity = num_or (r_quantity item) 1,
      unitPrice = 0,
      totalPrice = 0,
      category = str_or (r_category item) ''other''\<rparr>"

definition rawItems :: "raw_equipment \<Rightarrow> material_item list" where
  "rawItems eqData = map rawItem (case e_materials eqData of None \<Rightarrow> [] | Some ms \<Rightarrow> ms)"

text \<open>
  The merge key. The source tests \<open>eqData.tag === 'Unknown' || !eqData.tag\<close>; when
  that holds the key is the text \<open>Unknown-\<close>, the name of the file, a dash and the
  index \<open>eqIdx\<close>, and otherwise it is the tag.
\<close>

definition tagKey :: "string \<Rightarrow> nat \<Rightarrow> raw_equipment \<Rightarrow> string" where
  "tagKey fileName eqIdx eqData =
     (case e_tag eqData of
        None \<Rightarrow> ''Unknown-'' @ fileName @ ''-'' @ show_nat eqIdx
      | Some t \<Rightarrow>
          if t = ''Unknown'' \<or> t = [] then ''Unknown-'' @ fileName @ ''-'' @ show_nat eqIdx
          else t)"

text \<open>
  \<open>equipmentMap\<close> is a JavaScript \<open>Map\<close>: an association list in insertion order;
  \<open>AList.update\<close> replaces the value of a key in place and appends a new key at the end.
\<close>

type_synonym equipmentMap = "(string \<times> material_item equipment) list"

definition merge_existing ::
  "material_item equipment \<Rightarrow> string \<Rightarrow> raw_equipment \<Rightarrow> material_item equipment" where
  "merge_existing existing base64 eqData =
     existing
       \<lparr>materials := materials existing @ rawItems eqData,
        drawings :=
          (if base64 \<in> set (drawings existing) then drawings existing
           else drawings existing @ [base64]),
        eq_specification :=
          (if \<not> truthy_str (eq_specification existing) \<and> truthy_str (e_specification eqData)
           then e_specification eqData else eq_specification existing),
        mainMaterial :=
          (if \<not> truthy_str (mainMaterial existing) \<and> truthy_str (e_mainMaterial eqData)
           then e_mainMaterial eqData else mainMaterial existing),
        designWeight :=
          (if \<not> truthy_num (designWeight existing) \<and> truthy_num (e_designWeight eqData)
           then e_designWeight eqData else designWeight existing)\<rparr>"

definition create_new :: "string \<Rightarrow> string \<Rightarrow> raw_equipment \<Rightarrow> material_item equipment" where
  "create_new key base64 eqData =
     \<lparr>tag = (if prefix ''Unknown-'' key then unnamed_equipment else key),
      name = e_name eqData,
      eq_specification = e_specification eqData,
      mainMaterial = e_mainMaterial eqData,
      designWeight = e_designWeight eqData,
      pageRange = None,
      sourceFileId = None,
      materials = rawItems eqData,
      drawings = [base64],
      status = Complete\<rparr>"

text \<open>The body of \<open>data.equipments.forEach((eqData, eqIdx) => ...)\<close>.\<close>

definition consolidate ::
  "string \<Rightarrow> string \<Rightarrow> equipmentMap \<Rightarrow> nat \<times> raw_equipment \<Rightarrow> equipmentMap" where
  "consolidate fileName base64 equipmentMap ie =
     (let eqIdx = fst ie; eqData = snd ie; key = tagKey fileName eqIdx eqData
      in case map_of equipmentMap key of
           Some existing \<Rightarrow>
             AList.update key (merge_existing existing base64 eqData) equipmentMap
         | None \<Rightarrow> AList.update key (create_new key base64 eqData) equipmentMap)"

text \<open>
  A queued file: the browser's \<open>File\<close> (its name, its type, and the data URL that
  \<open>FileReader\<close> reads from it) and the status of the queue entry. The display fields
  \<open>results\<close> and \<open>errorMsg\<close> are left out.
\<close>

record js_file =
  file_name :: string
  file_type :: string
  file_data :: string

datatype queue_status = Pending | Processing | Success | Failure

record file_status =
  fs_file :: js_file
  fs_status :: queue_status

text \<open>
  One turn of the loop over the queue. An entry that is already a success is skipped;
  otherwise the file is read and analysed, and either every raw equipment is consolidated
  (status success) or the exception is caught (status error, map unchanged).
\<close>

definition process_file ::
  "equipmentMap \<Rightarrow> file_status \<times> extraction \<Rightarrow> equipmentMap \<times> file_status" where
  "process_file equipmentMap entry =
     (let fs = fst entry in
      if fs_status fs = Success then (equipmentMap, fs)
      else
        case analyzeDrawingForMaterials (snd entry) of
          Inl err \<Rightarrow> (equipmentMap, fs\<lparr>fs_status := Failure\<rparr>)
        | Inr equipments \<Rightarrow>
            (foldl (consolidate (file_name (fs_file fs)) (file_data (fs_file fs)))
               equipmentMap (enumerate 0 equipments),
             fs\<lparr>fs_status := Success\<rparr>))"

fun process_loop ::
  "equipmentMap \<Rightarrow> (file_status \<times> extraction) list \<Rightarrow> equipmentMap \<times> file_status list" where
  "process_loop equipmentMap [] = (equipmentMap, [])"
| "process_loop equipmentMap (entry # rest) =
     (let (m1, fs1) = process_file equipmentMap entry;
          (m2, queue) = process_loop m1 rest
      in (m2, fs1 # queue))"

text \<open>
  \<open>processQueue\<close>: the updated queue, and the list handed to \<open>onAnalysisComplete\<close>
  (only when the map is not empty).
\<close>

definition processQueue ::
  "(file_status \<times> extraction) list \<Rightarrow> file_status list \<times> material_item equipment list option" where
  "processQueue fileQueue =
     (let (equipmentMap, updatedQueue) = process_loop [] fileQueue
      in (updatedQueue, if equipmentMap \<noteq> [] then Some (map snd equipmentMap) else None))"

section \<open>Import wizard (SmartImporter.tsx)\<close>

record uploaded_file =
  uf_id :: string
  uf_name :: string
  uf_mimeType :: string
  uf_data :: string

text \<open>
  \<open>startStructureScan\<close>: every file whose data is loaded is scanned; each scanned entry
  becomes an identified equipment with no material lines; a scan that throws is logged and
  the loop goes on. Each file comes with the outcome of its scan.
\<close>

record imported_item =
  i_name :: "string option"
  i_material :: "string option"
  i_specification :: "string option"
  i_weight :: "real option"
  i_quantity :: "real option"
  i_unitPrice :: real
  i_totalPrice :: real
  i_category :: string

definition scanned :: "uploaded_file \<Rightarrow> scan_entry \<Rightarrow> imported_item equipment" where
  "scanned file res =
     \<lparr>tag = str_or (s_tag res) ''Unknown'',
      name = Some (str_or (s_name res) unnamed_equipment),
      eq_specification = None,
      mainMaterial = None,
      designWeight = None,
      pageRange = Some (str_or (s_pageRange res) whole_file),
      sourceFileId = Some (uf_id file),
      materials = [],
      drawings = [uf_data file],
      status = Identified\<rparr>"

fun startStructureScan ::
  "(uploaded_file \<times> (error + scan_entry list)) list \<Rightarrow> imported_item equipment list" where
  "startStructureScan [] = []"
| "startStructureScan ((file, scan) # rest) =
     (if uf_data file = [] then startStructureScan rest
      else
        case scan of
          Inr results \<Rightarrow> map (scanned file) results @ startStructureScan rest
        | Inl err \<Rightarrow> startStructureScan rest)"

text \<open>
  \<open>startDetailExtraction\<close>: one detail call per identified equipment, in order. The
  material line is the raw line spread into a new object (\<open>{...m, id, unitPrice: 0,
  totalPrice: 0, category: m.category || 'other'}\<close>), so the properties the raw line
  lacks stay absent. Each equipment comes with the outcome of its detail call.
\<close>

definition imported :: "raw_material \<Rightarrow> imported_item" where
  "imported m =
     \<lparr>i_name = r_name m, i_material = r_material m, i_specification = r_specification m,
      i_weight = r_weight m, i_quantity = r_quantity m, i_unitPrice = 0, i_totalPrice = 0,
      i_category = str_or (r_category m) ''other''\<rparr>"

definition extract_one ::
  "uploaded_file list \<Rightarrow> imported_item equipment \<times> (error + raw_details)
     \<Rightarrow> imported_item equipment" where
  "extract_one files entry =
     (let eq = fst entry in
      case find (\<lambda>f. Some (uf_id f) = sourceFileId eq) files of
        None \<Rightarrow> eq
      | Some file \<Rightarrow>
          (case snd entry of
             Inr details \<Rightarrow>
               eq\<lparr>eq_specification := str_or_opt (d_specification details) (eq_specification eq),
                  mainMaterial := str_or_opt (d_mainMaterial details) (mainMaterial eq),
                  designWeight := num_or_opt (d_designWeight details) (designWeight eq),
                  materials :=
                    map imported (case d_materials details of None \<Rightarrow> [] | Some ms \<Rightarrow> ms),
                  status := Complete\<rparr>
           | Inl err \<Rightarrow> eq\<lparr>status := Error\<rparr>))"

fun startDetailExtraction ::
  "uploaded_file list \<Rightarrow> (imported_item equipment \<times> (error + raw_details)) list
     \<Rightarrow> imported_item equipment list" where
  "startDetailExtraction files [] = []"
| "startDetailExtraction files (entry # rest) =
     extract_one files entry # startDetailExtraction files rest"

section \<open>Pricing lookup (services/gemini.ts, BudgetView.tsx)\<close>

text \<open>
  The answer of the pricing service, after \<open>JSON.parse\<close>: the call or the parse throws
  (\<open>Inl\<close>), or there is an object whose \<open>prices\<close> is an array of entries
  (\<open>Inr (Some ps)\<close>) or is not one (\<open>Inr None\<close>).
\<close>

record price_entry =
  p_material :: "string option"
  p_pricePerKg :: "real option"

type_synonym pricing = "error + price_entry list option"

text \<open>
  \<open>priceMap\<close> is a plain object. An association list holds it in the order of
  \<open>Object.keys\<close>: array-index keys (canonical decimal numerals below \<open>2^32 - 1\<close>) first,
  ascending, then the other keys in the order of their first assignment. An assignment to
  a key that is there replaces its value in place.
\<close>

definition is_digit :: "char \<Rightarrow> bool" where
  "is_digit c = (c \<in> set ''0123456789'')"

definition index_value :: "string \<Rightarrow> nat" where
  "index_value s = foldl (\<lambda>n c. 10 * n + (of_char c - 48)) 0 s"

definition is_array_index :: "string \<Rightarrow> bool" where
  "is_array_index s =
     (s \<noteq> [] \<and> list_all is_digit s \<and> (s = ''0'' \<or> hd s \<noteq> CHR ''0'')
      \<and> index_value s < 4294967295)"

fun insert_index :: "string \<Rightarrow> 'v \<Rightarrow> (string \<times> 'v) list \<Rightarrow> (string \<times> 'v) list" where
  "insert_index k v [] = [(k, v)]"
| "insert_index k v ((k', v') # rest) =
     (if is_array_index k' \<and> index_value k' < index_value k
      then (k', v') # insert_index k v rest
      else (k, v) # (k', v') # rest)"

definition obj_set :: "string \<Rightarrow> 'v \<Rightarrow> (string \<times> 'v) list \<Rightarrow> (string \<times> 'v) list" where
  "obj_set k v obj =
     (if map_of obj k \<noteq> None then AList.update k v obj
      else if is_array_index k then insert_index k v obj
      else obj @ [(k, v)])"

definition Object_keys :: "(string \<times> 'v) list \<Rightarrow> string list" where
  "Object_keys obj = map fst obj"

text \<open>
  \<open>findMaterialPrices\<close>: no call for an empty list of names; an entry is stored when
  both its material and its price are true values; any exception gives the empty object.
\<close>

definition findMaterialPrices :: "string list \<Rightarrow> pricing \<Rightarrow> (string \<times> real) list" where
  "findMaterialPrices names response =
     (if names = [] then []
      else
        case response of
          Inl err \<Rightarrow> []
        | Inr data \<Rightarrow>
            (case data of
               None \<Rightarrow> []
             | Some prices \<Rightarrow>
                 foldl (\<lambda>priceMap p.
                          case (p_material p, p_pricePerKg p) of
                            (Some m, Some v) \<Rightarrow>
                              if m \<noteq> [] \<and> v \<noteq> 0 then obj_set m v priceMap else priceMap
                          | _ \<Rightarrow> priceMap)
                   [] prices))"

text \<open>
  \<open>s.includes(t)\<close>: \<open>t\<close> occurs in \<open>s\<close> as a contiguous part. \<open>toLowerCase\<close> is a
  parameter of the model; \<open>ascii_lower\<close> is what it does on ASCII text.
\<close>

definition js_includes :: "string \<Rightarrow> string \<Rightarrow> bool" where
  "js_includes s t = sublist t s"

definition ascii_lower :: "string \<Rightarrow> string" where
  "ascii_lower s =
     map (\<lambda>c. case map_of (zip ''ABCDEFGHIJKLMNOPQRSTUVWXYZ'' ''abcdefghijklmnopqrstuvwxyz'') c of
                Some l \<Rightarrow> l
              | None \<Rightarrow> c) s"

definition handleFetchPrices ::
  "(string \<Rightarrow> string) \<Rightarrow> pricing \<Rightarrow> material_item list \<Rightarrow> material_item list" where
  "handleFetchPrices toLowerCase response items =
     (let materialNames = filter (\<lambda>m. m \<noteq> ''N/A'' \<and> m \<noteq> []) (map material items);
          prices = findMaterialPrices materialNames response
      in map (\<lambda>item.
                case find (\<lambda>key.
                             js_includes (toLowerCase (material item)) (toLowerCase key)
                             \<or> js_includes (toLowerCase key) (toLowerCase (material item)))
                       (Object_keys prices) of
                  None \<Rightarrow> item
                | Some foundPriceKey \<Rightarrow>
                    if foundPriceKey = [] then item
                    else
                      (case map_of prices foundPriceKey of
                         Some price \<Rightarrow> item\<lparr>unitPrice := price\<rparr>
                       | None \<Rightarrow> item))
           items)"

section \<open>Auxiliary notions for the proofs\<close>

text \<open>
  What one queue entry contributes to the map: for every raw equipment of a file that is
  analysed, the merge key, the file's data URL and the raw equipment. \<open>merge_keyed\<close> is
  the body of the \<open>forEach\<close> with the key already computed.
\<close>

definition merge_keyed ::
  "equipmentMap \<Rightarrow> string \<times> string \<times> raw_equipment \<Rightarrow> equipmentMap" where
  "merge_keyed m c =
     (case c of (key, base64, eqData) \<Rightarrow>
        (case map_of m key of
           Some existing \<Rightarrow> AList.update key (merge_existing existing base64 eqData) m
         | None \<Rightarrow> AList.update key (create_new key base64 eqData) m))"

definition contributions ::
  "file_status \<times> extraction \<Rightarrow> (string \<times> string \<times> raw_equipment) list" where
  "contributions entry =
     (if fs_status (fst entry) = Success then []
      else
        case analyzeDrawingForMaterials (snd entry) of
          Inl err \<Rightarrow> []
        | Inr equipments \<Rightarrow>
            map (\<lambda>ie. (tagKey (file_name (fs_file (fst entry))) (fst ie) (snd ie),
                       file_data (fs_file (fst entry)), snd ie))
              (enumerate 0 equipments))"

text \<open>
  \<open>filled_from e e'\<close>: each of the three fill-if-empty fields of \<open>e'\<close> is the field of
  \<open>e\<close>, or the field of \<open>e\<close> was empty and the one of \<open>e'\<close> is not.
\<close>

definition filled_from :: "'m equipment \<Rightarrow> 'm equipment \<Rightarrow> bool" where
  "filled_from e e' =
     ((eq_specification e' = eq_specification e
        \<or> (\<not> truthy_str (eq_specification e) \<and> truthy_str (eq_specification e')))
      \<and> (mainMaterial e' = mainMaterial e
        \<or> (\<not> truthy_str (mainMaterial e) \<and> truthy_str (mainMaterial e')))
      \<and> (designWeight e' = designWeight e
        \<or> (\<not> truthy_num (designWeight e) \<and> truthy_num (designWeight e'))))"

text \<open>
  \<open>consolidated cs k e\<close>: the record \<open>e\<close> holds, for the key \<open>k\<close>, what the
  contributions \<open>cs\<close> with that key give: their material lines in order, their drawings,
  the tag shown for the key, and the fixed fields.
\<close>

definition consolidated ::
  "(string \<times> string \<times> raw_equipment) list \<Rightarrow> string \<Rightarrow> material_item equipment \<Rightarrow> bool" where
  "consolidated cs k e =
     (materials e = concat (map (\<lambda>c. rawItems (snd (snd c))) (filter (\<lambda>c. fst c = k) cs))
      \<and> set (drawings e) = (\<lambda>c. fst (snd c)) ` {c \<in> set cs. fst c = k}
      \<and> tag e = (if prefix ''Unknown-'' k then unnamed_equipment else k)
      \<and> status e = Complete \<and> pageRange e = None \<and> sourceFileId e = None)"

text \<open>
  \<open>contain_one_another lc key mat\<close>: after \<open>lc\<close>, the key occurs in the material name
  as a contiguous part, or the material name occurs in the key.
\<close>

definition contain_one_another :: "(string \<Rightarrow> string) \<Rightarrow> string \<Rightarrow> string \<Rightarrow> bool" where
  "contain_one_another lc key mat = (sublist (lc key) (lc mat) \<or> sublist (lc mat) (lc key))"

section \<open>Concrete inputs\<close>

text \<open>Raw material lines, files, scans and detail answers on which the model is run below.\<close>

definition line_shell :: raw_material where
  "line_shell =
     \<lparr>r_name = Some ''Shell'', r_material = Some ''Q345R'', r_specification = None,
      r_weight = Some 10, r_quantity = Some 2, r_category = Some ''plate''\<rparr>"

definition line_bare :: raw_material where
  "line_bare =
     \<lparr>r_name = None, r_material = None, r_specification = None,
      r_weight = None, r_quantity = None, r_category = None\<rparr>"

definition line_valve :: raw_material where
  "line_valve =
     \<lparr>r_name = Some ''Valve'', r_material = Some ''WCB'', r_specification = Some ''DN50'',
      r_weight = Some 12, r_quantity = None, r_category = Some ''valve''\<rparr>"

definition copy_1 :: js_file where
  "copy_1 =
     \<lparr>file_name = ''sheet.pdf'', file_type = ''application/pdf'',
      file_data = ''data:application/pdf;base64,QQ==''\<rparr>"

definition copy_2 :: js_file where
  "copy_2 =
     \<lparr>file_name = ''sheet.pdf'', file_type = ''application/pdf'',
      file_data = ''data:application/pdf;base64,Qg==''\<rparr>"

definition drawing_A :: js_file where
  "drawing_A =
     \<lparr>file_name = ''a.pdf'', file_type = ''application/pdf'',
      file_data = ''data:application/pdf;base64,QUE=''\<rparr>"

definition drawing_B :: js_file where
  "drawing_B =
     \<lparr>file_name = ''b.pdf'', file_type = ''application/pdf'',
      file_data = ''data:application/pdf;base64,QkI=''\<rparr>"

definition queued :: "js_file \<Rightarrow> file_status" where
  "queued f = \<lparr>fs_file = f, fs_status = Pending\<rparr>"

definition untagged :: "raw_material \<Rightarrow> extraction" where
  "untagged line =
     Inr [(\<lparr>s_tag = None, s_name = Some ''Tank'', s_pageRange = None\<rparr>,
           Inr \<lparr>d_tag = None, d_name = None, d_specification = None, d_mainMaterial = None,
                d_designWeight = None, d_materials = Some [line]\<rparr>)]"

definition tank_scan :: scan_entry where
  "tank_scan = \<lparr>s_tag = Some ''V-1'', s_name = Some ''Tank'', s_pageRange = Some ''1''\<rparr>"

definition vessel_scan :: scan_entry where
  "vessel_scan = \<lparr>s_tag = Some ''V-1'', s_name = Some ''Vessel'', s_pageRange = None\<rparr>"

definition tank_details :: raw_details where
  "tank_details =
     \<lparr>d_tag = None, d_name = None, d_specification = Some ''DN100'', d_mainMaterial = None,
      d_designWeight = Some 0, d_materials = Some [line_shell]\<rparr>"

definition vessel_details :: raw_details where
  "vessel_details =
     \<lparr>d_tag = None, d_name = None, d_specification = Some ''DN200'',
      d_mainMaterial = Some ''S30408'', d_designWeight = Some 1200,
      d_materials = Some [line_bare]\<rparr>"

definition tank_record :: "material_item equipment" where
  "tank_record =
     \<lparr>tag = ''V-1'', name = Some ''Tank'', eq_specification = Some ''DN100'',
      mainMaterial = None, designWeight = Some 0, pageRange = None, sourceFileId = None,
      materials = [rawItem line_shell], drawings = [''data:application/pdf;base64,QUE=''],
      status = Complete\<rparr>"

definition upload_1 :: uploaded_file where
  "upload_1 =
     \<lparr>uf_id = ''file-1'', uf_name = ''a.pdf'', uf_mimeType = ''application/pdf'',
      uf_data = ''QUE=''\<rparr>"

definition pump_scan :: scan_entry where
  "pump_scan = \<lparr>s_tag = Some ''P-2'', s_name = Some ''Pump'', s_pageRange = Some ''2''\<rparr>"

definition quote_q345 :: price_entry where
  "quote_q345 = \<lparr>p_material = Some ''q345'', p_pricePerKg = Some 4.5\<rparr>"

definition quote_zero :: price_entry where
  "quote_zero = \<lparr>p_material = Some ''S30408'', p_pricePerKg = Some 0\<rparr>"

definition quote_unnamed :: price_entry where
  "quote_unnamed = \<lparr>p_material = None, p_pricePerKg = Some 9\<rparr>"

definition quote_unpriced :: price_entry where
  "quote_unpriced = \<lparr>p_material = Some ''Q345R'', p_pricePerKg = None\<rparr>"

section \<open>Properties of the cost rollup\<close>









section \<open>Properties of the consolidation\<close>

subsection \<open>The loop as a fold over keyed contributions\<close>

lemma consolidate_keyed:
  "consolidate fileName base64 m ie =
   merge_keyed m (tagKey fileName (fst ie) (snd ie), base64, snd ie)"
  by (simp add: consolidate_def merge_keyed_def Let_def)

lemma foldl_consolidate_keyed:
  "foldl (consolidate fileName base64) m xs =
   foldl merge_keyed m (map (\<lambda>ie. (tagKey fileName (fst ie) (snd ie), base64, snd ie)) xs)"
  by (induction xs arbitrary: m) (simp_all add: consolidate_keyed)

lemma process_file_contributions:
  "fst (process_file m entry) = foldl merge_keyed m (contributions entry)"
  by (simp add: process_file_def contributions_def Let_def foldl_consolidate_keyed
      split: sum.splits)

lemma process_loop_contributions:
  "fst (process_loop m queue) = foldl merge_keyed m (concat (map contributions queue))"
proof (induction queue arbitrary: m)
  case Nil
  show ?case by simp
next
  case (Cons entry rest)
  have "fst (process_loop m (entry # rest)) =
        fst (process_loop (fst (process_file m entry)) rest)"
    by (simp add: split_beta Let_def)
  then show ?case
    by (simp add: Cons.IH process_file_contributions)
qed

lemma map_of_merge_keyed:
  "map_of (merge_keyed m (k, b, e)) =
   (map_of m)(k \<mapsto>
      (case map_of m k of Some ex \<Rightarrow> merge_existing ex b e | None \<Rightarrow> create_new k b e))"
  by (simp add: merge_keyed_def update_conv' split: option.splits)

lemma consolidate_other_key:
  "k \<noteq> tagKey n i e \<Longrightarrow> map_of (consolidate n b m (i, e)) k = map_of m k"
  by (simp add: consolidate_keyed map_of_merge_keyed)

subsection \<open>Fill-if-empty\<close>

lemma filled_from_refl: "filled_from e e"
  by (simp add: filled_from_def)

lemma filled_from_trans: "filled_from a b \<Longrightarrow> filled_from b c \<Longrightarrow> filled_from a c"
  unfolding filled_from_def by metis

lemma filled_from_merge_existing: "filled_from ex (merge_existing ex b e)"
  by (simp add: filled_from_def merge_existing_def)

lemma merges_fill_only:
  "map_of m k = Some e \<Longrightarrow>
   \<exists>e'. map_of (foldl merge_keyed m cs) k = Some e' \<and> filled_from e e'"
proof (induction cs arbitrary: m e)
  case Nil
  then show ?case by (simp add: filled_from_refl)
next
  case (Cons c cs)
  obtain k' b d where c: "c = (k', b, d)" by (cases c)
  show ?case
  proof (cases "k' = k")
    case True
    have "map_of (merge_keyed m c) k = Some (merge_existing e b d)"
      using Cons.prems by (simp add: c True map_of_merge_keyed)
    from Cons.IH [OF this] obtain e' where
      "map_of (foldl merge_keyed (merge_keyed m c) cs) k = Some e'"
      "filled_from (merge_existing e b d) e'" by blast
    then show ?thesis
      using filled_from_trans [OF filled_from_merge_existing] by auto
  next
    case False
    have "map_of (merge_keyed m c) k = Some e"
      using Cons.prems False by (simp add: c map_of_merge_keyed)
    from Cons.IH [OF this] show ?thesis by simp
  qed
qed

text \<open>
  C4. When a raw result is merged into the record that the map already holds for its key,
  each of specification, mainMaterial and designWeight takes the incoming value exactly
  when the existing one is empty (absent, the empty string, zero) and the incoming one is
  not, and keeps the existing value otherwise. Through the rest of the queue, whatever is
  merged later, a field that is populated keeps its value, and a field that has changed
  was empty before and is populated afterwards.
\<close>

theorem C4_fill_if_empty:
  assumes "map_of equipmentMap key = Some existing"
  shows "(tagKey fileName eqIdx eqData = key \<longrightarrow>
            (\<exists>merged.
               map_of (consolidate fileName base64 equipmentMap (eqIdx, eqData)) key = Some merged
               \<and> eq_specification merged =
                   (if \<not> truthy_str (eq_specification existing)
                         \<and> truthy_str (e_specification eqData)
                    then e_specification eqData else eq_specification existing)
               \<and> mainMaterial merged =
                   (if \<not> truthy_str (mainMaterial existing) \<and> truthy_str (e_mainMaterial eqData)
                    then e_mainMaterial eqData else mainMaterial existing)
               \<and> designWeight merged =
                   (if \<not> truthy_num (designWeight existing) \<and> truthy_num (e_designWeight eqData)
                    then e_designWeight eqData else designWeight existing)))
    \<and> (\<exists>final.
          map_of (fst (process_loop equipmentMap queue)) key = Some final
          \<and> (truthy_str (eq_specification existing) \<longrightarrow>
                eq_specification final = eq_specification existing)
          \<and> (truthy_str (mainMaterial existing) \<longrightarrow> mainMaterial final = mainMaterial existing)
          \<and> (truthy_num (designWeight existing) \<longrightarrow> designWeight final = designWeight existing)
          \<and> (eq_specification final \<noteq> eq_specification existing \<longrightarrow>
                \<not> truthy_str (eq_specification existing) \<and> truthy_str (eq_specification final))
          \<and> (mainMaterial final \<noteq> mainMaterial existing \<longrightarrow>
                \<not> truthy_str (mainMaterial existing) \<and> truthy_str (mainMaterial final))
          \<and> (designWeight final \<noteq> designWeight existing \<longrightarrow>
                \<not> truthy_num (designWeight existing) \<and> truthy_num (designWeight final)))"
proof -
  have step: "map_of (consolidate fileName base64 equipmentMap (eqIdx, eqData)) key =
      Some (merge_existing existing base64 eqData)" if "tagKey fileName eqIdx eqData = key"
    using assms that by (simp add: consolidate_keyed map_of_merge_keyed)
  obtain final where final:
    "map_of (fst (process_loop equipmentMap queue)) key = Some final"
    "filled_from existing final"
    using merges_fill_only [OF assms] unfolding process_loop_contributions by blast
  from final(2) have
    "(truthy_str (eq_specification existing) \<longrightarrow>
        eq_specification final = eq_specification existing)
     \<and> (truthy_str (mainMaterial existing) \<longrightarrow> mainMaterial final = mainMaterial existing)
     \<and> (truthy_num (designWeight existing) \<longrightarrow> designWeight final = designWeight existing)
     \<and> (eq_specification final \<noteq> eq_specification existing \<longrightarrow>
          \<not> truthy_str (eq_specification existing) \<and> truthy_str (eq_specification final))
     \<and> (mainMaterial final \<noteq> mainMaterial existing \<longrightarrow>
          \<not> truthy_str (mainMaterial existing) \<and> truthy_str (mainMaterial final))
     \<and> (designWeight final \<noteq> designWeight existing \<longrightarrow>
          \<not> truthy_num (designWeight existing) \<and> truthy_num (designWeight final))"
    unfolding filled_from_def by blast
  with final(1) step show ?thesis
    by (auto simp add: merge_existing_def)
qed

theorem C4_fill_if_empty_run:
  "map_of [(''V-1'', tank_record)] ''V-1'' = Some tank_record
   \<and> tagKey ''b.pdf'' 0 (spread_details vessel_scan vessel_details) = ''V-1''
   \<and> map_of (fst (process_loop [(''V-1'', tank_record)]
                    [(queued drawing_B, Inr [(vessel_scan, Inr vessel_details)])])) ''V-1'' =
       Some \<lparr>tag = ''V-1'', name = Some ''Tank'', eq_specification = Some ''DN100'',
             mainMaterial = Some ''S30408'', designWeight = Some 1200, pageRange = None,
             sourceFileId = None, materials = [rawItem line_shell, rawItem line_bare],
             drawings = [''data:application/pdf;base64,QUE='', ''data:application/pdf;base64,QkI=''],
             status = Complete\<rparr>"
  using C4_fill_if_empty [of "[(''V-1'', tank_record)]" "''V-1''" tank_record "''b.pdf''" 0
      "spread_details vessel_scan vessel_details" "''data:application/pdf;base64,QkI=''"
      "[(queued drawing_B, Inr [(vessel_scan, Inr vessel_details)])]"]
  by (simp add: process_file_def analyzeDrawingForMaterials_def queued_def drawing_B_def
      vessel_scan_def vessel_details_def tank_record_def spread_details_def consolidate_def
      tagKey_def merge_existing_def rawItems_def truthy_str_def truthy_num_def
      enumerate_eq_zip Let_def)

subsection \<open>Merge keys of unresolved tags\<close>

lemma digit_char_not_dash: "d < 10 \<Longrightarrow> digit_char d \<noteq> CHR ''-''"
proof -
  assume "d < 10"
  then consider "d = 0" | "d = 1" | "d = 2" | "d = 3" | "d = 4" | "d = 5" | "d = 6"
    | "d = 7" | "d = 8" | "d = 9" by atomize_elim arith
  then show ?thesis by cases (simp_all add: digit_char_def)
qed

lemma of_char_digit_char: "d < 10 \<Longrightarrow> of_char (digit_char d) = (48 + d :: nat)"
proof -
  assume "d < 10"
  then consider "d = 0" | "d = 1" | "d = 2" | "d = 3" | "d = 4" | "d = 5" | "d = 6"
    | "d = 7" | "d = 8" | "d = 9" by atomize_elim arith
  then show ?thesis by cases (simp_all add: digit_char_def)
qed

lemma show_nat_no_dash: "CHR ''-'' \<notin> set (show_nat n)"
proof (induction n rule: show_nat.induct)
  case (1 n)
  show ?case
  proof (cases "n < 10")
    case True
    then show ?thesis
      using digit_char_not_dash [of n] by (simp add: show_nat.simps [of n])
  next
    case False
    have "n mod 10 < 10" by simp
    then show ?thesis
      using False "1.IH" digit_char_not_dash [of "n mod 10"]
      by (simp add: show_nat.simps [of n])
  qed
qed

lemma index_value_snoc: "index_value (s @ [c]) = 10 * index_value s + (of_char c - 48)"
  by (simp add: index_value_def)

lemma index_value_show_nat: "index_value (show_nat n) = n"
proof (induction n rule: show_nat.induct)
  case (1 n)
  show ?case
  proof (cases "n < 10")
    case True
    then show ?thesis
      by (simp add: show_nat.simps [of n] index_value_def of_char_digit_char)
  next
    case False
    have "n mod 10 < 10" by simp
    then show ?thesis
      using False "1.IH"
      by (simp add: show_nat.simps [of n] index_value_snoc of_char_digit_char)
  qed
qed

lemma show_nat_inj: "show_nat i = show_nat j \<Longrightarrow> i = j"
  by (metis index_value_show_nat)

lemma split_at_separator:
  "c \<notin> set u \<Longrightarrow> c \<notin> set v \<Longrightarrow> a @ c # u = b @ c # v \<Longrightarrow> a = b \<and> u = v"
proof (induction a arbitrary: b)
  case Nil
  then show ?case by (cases b) auto
next
  case (Cons x a)
  then show ?case by (cases b) auto
qed

lemma synthesized_key_inj:
  assumes "''Unknown-'' @ n1 @ ''-'' @ show_nat i1 = ''Unknown-'' @ n2 @ ''-'' @ show_nat i2"
  shows "n1 = n2 \<and> i1 = i2"
proof -
  from assms have "n1 @ CHR ''-'' # show_nat i1 = n2 @ CHR ''-'' # show_nat i2" by simp
  then have "n1 = n2 \<and> show_nat i1 = show_nat i2"
    using split_at_separator [OF show_nat_no_dash show_nat_no_dash] by blast
  then show ?thesis by (simp add: show_nat_inj)
qed

lemma tagKey_unresolved:
  "e_tag e \<in> {None, Some [], Some ''Unknown''} \<Longrightarrow>
   tagKey n i e = ''Unknown-'' @ n @ ''-'' @ show_nat i"
  by (auto simp add: tagKey_def)

text \<open>
  C5, as the code has it. Two raw results whose tag is absent, empty or \<open>Unknown\<close> get the
  same merge key exactly when the names of their files and their indices within the file
  agree. So results from files with different names never share a record: consolidating
  the one leaves the record under the key of the other as it is.
\<close>

theorem C5_unresolved_keys:
  assumes "e_tag e1 \<in> {None, Some [], Some ''Unknown''}"
    and "e_tag e2 \<in> {None, Some [], Some ''Unknown''}"
  shows "(tagKey n1 i1 e1 = tagKey n2 i2 e2 \<longleftrightarrow> n1 = n2 \<and> i1 = i2)
    \<and> (n1 \<noteq> n2 \<longrightarrow>
         map_of (consolidate n2 b2 m (i2, e2)) (tagKey n1 i1 e1) = map_of m (tagKey n1 i1 e1))"
proof -
  have keys: "tagKey n1 i1 e1 = tagKey n2 i2 e2 \<longleftrightarrow> n1 = n2 \<and> i1 = i2"
    using synthesized_key_inj [of n1 i1 n2 i2]
    by (auto simp add: tagKey_unresolved [OF assms(1)] tagKey_unresolved [OF assms(2)])
  then show ?thesis
    using consolidate_other_key [of "tagKey n1 i1 e1" n2 i2 e2 b2 m] by auto
qed

theorem C5_unresolved_keys_run:
  "e_tag (detail_failed \<lparr>s_tag = None, s_name = None, s_pageRange = None\<rparr>)
     \<in> {None, Some [], Some ''Unknown''}
   \<and> e_tag (detail_failed \<lparr>s_tag = Some ''Unknown'', s_name = None, s_pageRange = None\<rparr>)
     \<in> {None, Some [], Some ''Unknown''}
   \<and> tagKey ''a.pdf'' 0 (detail_failed \<lparr>s_tag = None, s_name = None, s_pageRange = None\<rparr>)
     \<noteq> tagKey ''b.pdf'' 0
          (detail_failed \<lparr>s_tag = Some ''Unknown'', s_name = None, s_pageRange = None\<rparr>)
   \<and> map_of (consolidate ''b.pdf'' ''data:,B'' [(''Unknown-a.pdf-0'', tank_record)]
               (0, detail_failed \<lparr>s_tag = Some ''Unknown'', s_name = None, s_pageRange = None\<rparr>))
        ''Unknown-a.pdf-0'' = Some tank_record
   \<and> map fst (fst (process_loop []
          [(queued drawing_A, untagged line_shell), (queued drawing_B, untagged line_bare)])) =
       [''Unknown-a.pdf-0'', ''Unknown-b.pdf-0'']"
  using C5_unresolved_keys
    [of "detail_failed \<lparr>s_tag = None, s_name = None, s_pageRange = None\<rparr>"
      "detail_failed \<lparr>s_tag = Some ''Unknown'', s_name = None, s_pageRange = None\<rparr>"
      "''a.pdf''" 0 "''b.pdf''" 0 "''data:,B''" "[(''Unknown-a.pdf-0'', tank_record)]"]
  by (simp add: detail_failed_def tagKey_def show_nat.simps digit_char_def process_file_def
      analyzeDrawingForMaterials_def untagged_def queued_def drawing_A_def drawing_B_def
      spread_details_def consolidate_def enumerate_eq_zip Let_def)

text \<open>
  C5, as the specification states it, fails: two different files that carry the same name (here
  \<open>sheet.pdf\<close>, with different contents), each with one equipment whose tag is absent,
  end in one record that holds the material lines and the drawings of both.
\<close>

theorem C5_same_name_counterexample:
  "fs_file (queued copy_1) \<noteq> fs_file (queued copy_2)
   \<and> snd (processQueue
            [(queued copy_1, untagged line_shell), (queued copy_2, untagged line_bare)]) =
       Some [\<lparr>tag = unnamed_equipment, name = Some ''Tank'', eq_specification = None,
               mainMaterial = None, designWeight = None, pageRange = None, sourceFileId = None,
               materials =
                 [\<lparr>item_name = ''Shell'', material = ''Q345R'', item_specification = ''-'',
                    weight = 10, quantity = 2, unitPrice = 0, totalPrice = 0,
                    category = ''plate''\<rparr>,
                  \<lparr>item_name = unknown_component, material = ''N/A'',
                    item_specification = ''-'', weight = 0, quantity = 1, unitPrice = 0,
                    totalPrice = 0, category = ''other''\<rparr>],
               drawings =
                 [''data:application/pdf;base64,QQ=='', ''data:application/pdf;base64,Qg==''],
               status = Complete\<rparr>]"
  by (simp add: processQueue_def process_file_def analyzeDrawingForMaterials_def untagged_def
      queued_def copy_1_def copy_2_def line_shell_def line_bare_def spread_details_def
      consolidate_def tagKey_def show_nat.simps digit_char_def create_new_def merge_existing_def
      rawItems_def rawItem_def str_or_def num_or_def truthy_str_def truthy_num_def
      enumerate_eq_zip Let_def)

subsection \<open>Order of consolidation\<close>

lemma consolidated_first:
  assumes "k \<notin> fst ` set cs"
  shows "consolidated (cs @ [(k, b, d)]) k (create_new k b d)"
proof -
  have "filter (\<lambda>c. fst c = k) cs = []"
    using assms by (auto simp add: filter_empty_conv)
  moreover have "{c. (c = (k, b, d) \<or> c \<in> set cs) \<and> fst c = k} = {(k, b, d)}"
    using assms by force
  ultimately show ?thesis
    by (simp add: consolidated_def create_new_def)
qed

lemma consolidated_merge:
  assumes "consolidated cs k ex"
  shows "consolidated (cs @ [(k, b, d)]) k (merge_existing ex b d)"
proof -
  have "{c. (c = (k, b, d) \<or> c \<in> set cs) \<and> fst c = k} =
        insert (k, b, d) {c \<in> set cs. fst c = k}"
    by auto
  then show ?thesis
    using assms by (auto simp add: consolidated_def merge_existing_def)
qed

lemma consolidated_other:
  assumes "consolidated cs k e" and "k' \<noteq> k"
  shows "consolidated (cs @ [(k', b, d)]) k e"
proof -
  have "{c. (c = (k', b, d) \<or> c \<in> set cs) \<and> fst c = k} = {c \<in> set cs. fst c = k}"
    using assms(2) by auto
  then show ?thesis
    using assms by (simp add: consolidated_def)
qed

lemma consolidated_view:
  "case map_of (foldl merge_keyed [] cs) k of
     None \<Rightarrow> k \<notin> fst ` set cs
   | Some e \<Rightarrow> k \<in> fst ` set cs \<and> consolidated cs k e"
proof (induction cs arbitrary: k rule: rev_induct)
  case Nil
  show ?case by simp
next
  case (snoc c cs)
  obtain k' b d where c: "c = (k', b, d)" by (cases c)
  let ?m = "foldl merge_keyed [] cs"
  show ?case
  proof (cases "k = k'")
    case True
    show ?thesis
    proof (cases "map_of ?m k")
      case None
      with snoc.IH [of k] have "k \<notin> fst ` set cs" by simp
      then show ?thesis
        using None by (simp add: c True [symmetric] map_of_merge_keyed consolidated_first)
    next
      case (Some ex)
      with snoc.IH [of k] have "consolidated cs k ex" by simp
      then show ?thesis
        using Some by (simp add: c True [symmetric] map_of_merge_keyed consolidated_merge)
    qed
  next
    case False
    then have same: "map_of (foldl merge_keyed [] (cs @ [c])) k = map_of ?m k"
      by (simp add: c map_of_merge_keyed)
    show ?thesis
    proof (cases "map_of ?m k")
      case None
      with snoc.IH [of k] have "k \<notin> fst ` set cs" by simp
      then show ?thesis
        unfolding same using None False by (simp add: c)
    next
      case (Some e)
      with snoc.IH [of k] have "k \<in> fst ` set cs" "consolidated cs k e" by simp_all
      then show ?thesis
        unfolding same using Some False consolidated_other [of cs k e k' b d]
        by (simp add: c)
    qed
  qed
qed

lemma consolidated_swap:
  assumes "consolidated (xs @ ys) k e1" and "consolidated (ys @ xs) k e2"
  shows "mset (materials e1) = mset (materials e2) \<and> set (drawings e1) = set (drawings e2)
    \<and> tag e1 = tag e2 \<and> status e1 = status e2 \<and> pageRange e1 = pageRange e2
    \<and> sourceFileId e1 = sourceFileId e2"
proof -
  have "{c \<in> set (xs @ ys). fst c = k} = {c \<in> set (ys @ xs). fst c = k}" by auto
  then have "set (drawings e1) = set (drawings e2)"
    using assms unfolding consolidated_def by metis
  moreover have "mset (materials e1) = mset (materials e2)"
    using assms by (simp add: consolidated_def mset_concat)
  ultimately show ?thesis
    using assms by (simp add: consolidated_def)
qed

text \<open>
  C9, as the code has it. Processing a queue of two files in either order gives the same
  set of merge keys, and for every key two records with the same material lines up to
  order, the same set of drawings and the same tag, status, pageRange and sourceFileId.
  Nothing is said of name, specification, mainMaterial and designWeight, which the first
  result for a key decides.
\<close>

theorem C9_order_of_files:
  fixes a b :: "file_status \<times> extraction"
  defines "mAB \<equiv> fst (process_loop [] [a, b])" and "mBA \<equiv> fst (process_loop [] [b, a])"
  shows "fst ` set mAB = fst ` set mBA
    \<and> (\<forall>k eAB eBA. map_of mAB k = Some eAB \<and> map_of mBA k = Some eBA \<longrightarrow>
          mset (materials eAB) = mset (materials eBA)
          \<and> set (drawings eAB) = set (drawings eBA)
          \<and> tag eAB = tag eBA \<and> status eAB = status eBA
          \<and> pageRange eAB = pageRange eBA \<and> sourceFileId eAB = sourceFileId eBA)"
proof -
  let ?xs = "contributions a" and ?ys = "contributions b"
  have AB: "mAB = foldl merge_keyed [] (?xs @ ?ys)"
    and BA: "mBA = foldl merge_keyed [] (?ys @ ?xs)"
    by (simp_all add: mAB_def mBA_def process_loop_contributions del: process_loop.simps)
  have keys: "map_of (foldl merge_keyed [] cs) k = None \<longleftrightarrow> k \<notin> fst ` set cs" for cs k
    using consolidated_view [where cs = cs and k = k]
    by (cases "map_of (foldl merge_keyed [] cs) k") simp_all
  have "dom (map_of mAB) = dom (map_of mBA)"
  proof -
    have "map_of mAB k = None \<longleftrightarrow> map_of mBA k = None" for k
      unfolding AB BA keys by auto
    then show ?thesis by (auto simp add: dom_def)
  qed
  then have "fst ` set mAB = fst ` set mBA"
    by (simp add: dom_map_of_conv_image_fst)
  moreover have "mset (materials eAB) = mset (materials eBA)
          \<and> set (drawings eAB) = set (drawings eBA)
          \<and> tag eAB = tag eBA \<and> status eAB = status eBA
          \<and> pageRange eAB = pageRange eBA \<and> sourceFileId eAB = sourceFileId eBA"
    if "map_of mAB k = Some eAB" and "map_of mBA k = Some eBA" for k eAB eBA
  proof -
    have "consolidated (?xs @ ?ys) k eAB"
      using consolidated_view [where cs = "?xs @ ?ys" and k = k] that(1) by (simp add: AB)
    moreover have "consolidated (?ys @ ?xs) k eBA"
      using consolidated_view [where cs = "?ys @ ?xs" and k = k] that(2) by (simp add: BA)
    ultimately show ?thesis by (rule consolidated_swap)
  qed
  ultimately show ?thesis by blast
qed

theorem C9_order_of_files_run:
  "map_of (fst (process_loop []
       [(queued drawing_A, Inr [(tank_scan, Inr tank_details)]),
        (queued drawing_B, Inr [(vessel_scan, Inr vessel_details)])])) ''V-1'' =
     Some \<lparr>tag = ''V-1'', name = Some ''Tank'', eq_specification = Some ''DN100'',
           mainMaterial = Some ''S30408'', designWeight = Some 1200, pageRange = None,
           sourceFileId = None, materials = [rawItem line_shell, rawItem line_bare],
           drawings = [''data:application/pdf;base64,QUE='', ''data:application/pdf;base64,QkI=''],
           status = Complete\<rparr>
   \<and> map_of (fst (process_loop []
       [(queued drawing_B, Inr [(vessel_scan, Inr vessel_details)]),
        (queued drawing_A, Inr [(tank_scan, Inr tank_details)])])) ''V-1'' =
     Some \<lparr>tag = ''V-1'', name = Some ''Vessel'', eq_specification = Some ''DN200'',
           mainMaterial = Some ''S30408'', designWeight = Some 1200, pageRange = None,
           sourceFileId = None, materials = [rawItem line_bare, rawItem line_shell],
           drawings = [''data:application/pdf;base64,QkI='', ''data:application/pdf;base64,QUE=''],
           status = Complete\<rparr>
   \<and> mset [rawItem line_shell, rawItem line_bare] = mset [rawItem line_bare, rawItem line_shell]"
  using C9_order_of_files
    [of "(queued drawing_A, Inr [(tank_scan, Inr tank_details)])"
      "(queued drawing_B, Inr [(vessel_scan, Inr vessel_details)])"]
  by (simp add: process_file_def analyzeDrawingForMaterials_def queued_def drawing_A_def
      drawing_B_def tank_scan_def vessel_scan_def tank_details_def vessel_details_def
      spread_details_def consolidate_def tagKey_def create_new_def merge_existing_def
      rawItems_def truthy_str_def truthy_num_def enumerate_eq_zip Let_def)

text \<open>
  C9, as the specification states it, fails: two files with one equipment each under the tag
  \<open>V-1\<close>, with different names and specifications. The record keeps the name and the
  specification of the file that is processed first.
\<close>

theorem C9_first_wins_counterexample:
  "snd (processQueue
          [(queued drawing_A, Inr [(tank_scan, Inr tank_details)]),
           (queued drawing_B, Inr [(vessel_scan, Inr vessel_details)])]) =
     Some [\<lparr>tag = ''V-1'', name = Some ''Tank'', eq_specification = Some ''DN100'',
             mainMaterial = Some ''S30408'', designWeight = Some 1200, pageRange = None,
             sourceFileId = None, materials = [rawItem line_shell, rawItem line_bare],
             drawings =
               [''data:application/pdf;base64,QUE='', ''data:application/pdf;base64,QkI=''],
             status = Complete\<rparr>]
   \<and> snd (processQueue
          [(queued drawing_B, Inr [(vessel_scan, Inr vessel_details)]),
           (queued drawing_A, Inr [(tank_scan, Inr tank_details)])]) =
     Some [\<lparr>tag = ''V-1'', name = Some ''Vessel'', eq_specification = Some ''DN200'',
             mainMaterial = Some ''S30408'', designWeight = Some 1200, pageRange = None,
             sourceFileId = None, materials = [rawItem line_bare, rawItem line_shell],
             drawings =
               [''data:application/pdf;base64,QkI='', ''data:application/pdf;base64,QUE=''],
             status = Complete\<rparr>]"
  by (simp add: processQueue_def process_file_def analyzeDrawingForMaterials_def queued_def
      drawing_A_def drawing_B_def tank_scan_def vessel_scan_def tank_details_def
      vessel_details_def spread_details_def consolidate_def tagKey_def create_new_def
      merge_existing_def rawItems_def truthy_str_def truthy_num_def enumerate_eq_zip Let_def)

section \<open>Properties of record construction and of failure handling\<close>

text \<open>
  C8, as the code has it. A material line built by ExtractionView takes a placeholder for
  a missing name, material and specification, 0 for a missing weight, 1 for a missing or
  zero quantity, and \<open>other\<close> for a missing category, while a category that is given is
  kept as it is; its prices are 0. An equipment whose tag is missing, empty or \<open>Unknown\<close>
  is shown under the placeholder tag, with a merge key that starts with \<open>Unknown-\<close>.
  The scan of SmartImporter takes \<open>Unknown\<close> for a missing tag and placeholders for a
  missing name and page range; its material lines get prices 0 and \<open>other\<close> for a
  missing category.
\<close>

theorem C8_defaulting:
  "(r_name item = None \<or> r_name item = Some [] \<longrightarrow> item_name (rawItem item) = unknown_component)
   \<and> (r_material item = None \<or> r_material item = Some [] \<longrightarrow> material (rawItem item) = ''N/A'')
   \<and> (r_specification item = None \<or> r_specification item = Some [] \<longrightarrow>
         item_specification (rawItem item) = ''-'')
   \<and> (r_weight item = None \<longrightarrow> weight (rawItem item) = 0)
   \<and> (\<forall>w. r_weight item = Some w \<longrightarrow> weight (rawItem item) = w)
   \<and> (r_quantity item = None \<or> r_quantity item = Some 0 \<longrightarrow> quantity (rawItem item) = 1)
   \<and> (\<forall>q. r_quantity item = Some q \<and> q \<noteq> 0 \<longrightarrow> quantity (rawItem item) = q)
   \<and> unitPrice (rawItem item) = 0 \<and> totalPrice (rawItem item) = 0
   \<and> (r_category item = None \<or> r_category item = Some [] \<longrightarrow> category (rawItem item) = ''other'')
   \<and> (\<forall>c. r_category item = Some c \<and> c \<noteq> [] \<longrightarrow> category (rawItem item) = c)
   \<and> rawItems eqData = map rawItem (case e_materials eqData of None \<Rightarrow> [] | Some ms \<Rightarrow> ms)
   \<and> (e_tag eqData \<in> {None, Some [], Some ''Unknown''} \<longrightarrow>
         prefix ''Unknown-'' (tagKey fileName eqIdx eqData)
         \<and> tag (create_new (tagKey fileName eqIdx eqData) base64 eqData) = unnamed_equipment)
   \<and> (s_tag res = None \<or> s_tag res = Some [] \<longrightarrow> tag (scanned file res) = ''Unknown'')
   \<and> (s_name res = None \<or> s_name res = Some [] \<longrightarrow>
         name (scanned file res) = Some unnamed_equipment)
   \<and> (s_pageRange res = None \<or> s_pageRange res = Some [] \<longrightarrow>
         pageRange (scanned file res) = Some whole_file)
   \<and> i_unitPrice (imported item) = 0 \<and> i_totalPrice (imported item) = 0
   \<and> (r_category item = None \<or> r_category item = Some [] \<longrightarrow>
         i_category (imported item) = ''other'')"
proof -
  have "prefix ''Unknown-'' (tagKey fileName eqIdx eqData)
        \<and> tag (create_new (tagKey fileName eqIdx eqData) base64 eqData) = unnamed_equipment"
    if "e_tag eqData \<in> {None, Some [], Some ''Unknown''}"
    using that by (auto simp add: tagKey_def create_new_def)
  then show ?thesis
    by (auto simp add: rawItem_def rawItems_def scanned_def imported_def str_or_def num_or_def)
qed

theorem C8_defaulting_run:
  "rawItem line_bare =
     \<lparr>item_name = unknown_component, material = ''N/A'', item_specification = ''-'',
      weight = 0, quantity = 1, unitPrice = 0, totalPrice = 0, category = ''other''\<rparr>
   \<and> tagKey ''a.pdf'' 3 (detail_failed \<lparr>s_tag = None, s_name = None, s_pageRange = None\<rparr>) =
       ''Unknown-a.pdf-3''
   \<and> scanned \<lparr>uf_id = ''file-1'', uf_name = ''a.pdf'', uf_mimeType = ''application/pdf'',
                uf_data = ''QUE=''\<rparr>
        \<lparr>s_tag = None, s_name = None, s_pageRange = None\<rparr> =
       \<lparr>tag = ''Unknown'', name = Some unnamed_equipment, eq_specification = None,
        mainMaterial = None, designWeight = None, pageRange = Some whole_file,
        sourceFileId = Some ''file-1'', materials = [], drawings = [''QUE=''],
        status = Identified\<rparr>
   \<and> i_category (imported line_bare) = ''other''"
  using C8_defaulting [of line_bare
      "detail_failed \<lparr>s_tag = None, s_name = None, s_pageRange = None\<rparr>" "''a.pdf''" 3
      "''data:,A''" "\<lparr>s_tag = None, s_name = None, s_pageRange = None\<rparr>"
      "\<lparr>uf_id = ''file-1'', uf_name = ''a.pdf'', uf_mimeType = ''application/pdf'',
        uf_data = ''QUE=''\<rparr>"]
  by (simp add: line_bare_def rawItem_def str_or_def num_or_def detail_failed_def tagKey_def
      show_nat.simps digit_char_def scanned_def imported_def)

text \<open>
  C8, as the specification states it, fails: a raw line with no quantity and with a category outside
  the five of the enumeration becomes a line with quantity 1, not 0, and keeps its
  category.
\<close>

theorem C8_quantity_category_counterexample:
  "r_quantity line_valve = None \<and> r_category line_valve = Some ''valve''
   \<and> rawItem line_valve =
       \<lparr>item_name = ''Valve'', material = ''WCB'', item_specification = ''DN50'',
        weight = 12, quantity = 1, unitPrice = 0, totalPrice = 0, category = ''valve''\<rparr>"
  by (simp add: line_valve_def rawItem_def str_or_def num_or_def)

lemma startDetailExtraction_map:
  "startDetailExtraction files batch = map (extract_one files) batch"
  by (induction batch) simp_all

lemma startStructureScan_seeds:
  "eq \<in> set (startStructureScan scans) \<Longrightarrow>
   materials eq = [] \<and> status eq = Identified
   \<and> (\<exists>file \<in> set (map fst scans). sourceFileId eq = Some (uf_id file))"
proof (induction scans rule: startStructureScan.induct)
  case 1
  then show ?case by simp
next
  case (2 f sc rest)
  then show ?case
    by (auto simp add: scanned_def split: if_splits sum.splits)
qed

lemma find_is_Some: "\<exists>x \<in> set xs. P x \<Longrightarrow> \<exists>y. find P xs = Some y"
  by (cases "find P xs") (auto simp add: find_None_iff)

text \<open>
  C6, as the code has it. In SmartImporter, an equipment identified by the structure scan
  whose detail call fails stays in the result, at its place, with no material lines and
  status error, and every equipment of the batch is the outcome of its own detail call.
  In \<open>analyzeDrawingForMaterials\<close>, an entry whose detail call fails stays in the
  returned list, at its place, with the tag and name of the scan and an empty material
  list, and the other entries carry their own details.
\<close>

theorem C6_detail_failure:
  "(i < length batch \<and> batch ! i = (eq, Inl err) \<and> eq \<in> set (startStructureScan scans) \<longrightarrow>
      length (startDetailExtraction (map fst scans) batch) = length batch
      \<and> startDetailExtraction (map fst scans) batch ! i = eq\<lparr>status := Error\<rparr>
      \<and> materials (startDetailExtraction (map fst scans) batch ! i) = []
      \<and> status (startDetailExtraction (map fst scans) batch ! i) = Error
      \<and> (\<forall>j < length batch.
            startDetailExtraction (map fst scans) batch ! j =
              extract_one (map fst scans) (batch ! j)))
   \<and> (n < length entries \<and> entries ! n = (entry, Inl err') \<longrightarrow>
        (\<exists>rs. analyzeDrawingForMaterials (Inr entries) = Inr rs
           \<and> length rs = length entries
           \<and> rs ! n =
               \<lparr>e_tag = s_tag entry, e_name = s_name entry, e_pageRange = s_pageRange entry,
                e_specification = None, e_mainMaterial = None, e_designWeight = None,
                e_materials = Some []\<rparr>
           \<and> rawItems (rs ! n) = []
           \<and> (\<forall>j < length entries. \<forall>details. snd (entries ! j) = Inr details \<longrightarrow>
                 rs ! j = spread_details (fst (entries ! j)) details)))"
proof -
  have importer: "startDetailExtraction (map fst scans) batch ! i = eq\<lparr>status := Error\<rparr>
      \<and> materials (startDetailExtraction (map fst scans) batch ! i) = []"
    if "i < length batch" "batch ! i = (eq, Inl err)" "eq \<in> set (startStructureScan scans)"
  proof -
    from startStructureScan_seeds [OF that(3)] have seeds: "materials eq = []"
      by simp
    have "\<exists>f \<in> set (map fst scans). Some (uf_id f) = sourceFileId eq"
      using startStructureScan_seeds [OF that(3)] by metis
    then obtain uf where "find (\<lambda>f. Some (uf_id f) = sourceFileId eq) (map fst scans) = Some uf"
      using find_is_Some [of "map fst scans" "\<lambda>f. Some (uf_id f) = sourceFileId eq"] by blast
    then have "extract_one (map fst scans) (eq, Inl err) = eq\<lparr>status := Error\<rparr>"
      by (simp add: extract_one_def)
    with that(1,2) seeds show ?thesis
      by (simp add: startDetailExtraction_map)
  qed
  have legacy: "analyzeDrawingForMaterials (Inr entries) =
      Inr (map (\<lambda>(eq, detail). case detail of Inr details \<Rightarrow> spread_details eq details
                                | Inl _ \<Rightarrow> detail_failed eq) entries)"
    by (simp add: analyzeDrawingForMaterials_def)
  have spread: "map (\<lambda>(eq, detail). case detail of Inr details \<Rightarrow> spread_details eq details
                                | Inl _ \<Rightarrow> detail_failed eq) entries ! j =
      spread_details (fst (entries ! j)) details"
    if "j < length entries" "snd (entries ! j) = Inr details" for j details
    using that by (simp add: split_beta)
  show ?thesis
    using importer spread
    by (auto simp add: startDetailExtraction_map legacy detail_failed_def rawItems_def)
qed

theorem C6_detail_failure_run:
  "startStructureScan [(upload_1, Inr [tank_scan, pump_scan])] =
     [scanned upload_1 tank_scan, scanned upload_1 pump_scan]
   \<and> startDetailExtraction [upload_1]
        [(scanned upload_1 tank_scan, Inl DetailError),
         (scanned upload_1 pump_scan, Inr vessel_details)] =
       [\<lparr>tag = ''V-1'', name = Some ''Tank'', eq_specification = None, mainMaterial = None,
         designWeight = None, pageRange = Some ''1'', sourceFileId = Some ''file-1'',
         materials = [], drawings = [''QUE=''], status = Error\<rparr>,
        \<lparr>tag = ''P-2'', name = Some ''Pump'', eq_specification = Some ''DN200'',
         mainMaterial = Some ''S30408'', designWeight = Some 1200, pageRange = Some ''2'',
         sourceFileId = Some ''file-1'', materials = [imported line_bare],
         drawings = [''QUE=''], status = Complete\<rparr>]
   \<and> analyzeDrawingForMaterials
        (Inr [(tank_scan, Inl DetailError), (vessel_scan, Inr vessel_details)]) =
       Inr [\<lparr>e_tag = Some ''V-1'', e_name = Some ''Tank'', e_pageRange = Some ''1'',
             e_specification = None, e_mainMaterial = None, e_designWeight = None,
             e_materials = Some []\<rparr>,
            spread_details vessel_scan vessel_details]"
  using C6_detail_failure [of 0
      "[(scanned upload_1 tank_scan, Inl DetailError),
        (scanned upload_1 pump_scan, Inr vessel_details)]"
      "scanned upload_1 tank_scan" DetailError "[(upload_1, Inr [tank_scan, pump_scan])]"
      0 "[(tank_scan, Inl DetailError), (vessel_scan, Inr vessel_details)]" tank_scan
      DetailError]
  by (simp add: upload_1_def tank_scan_def pump_scan_def vessel_details_def scanned_def
      extract_one_def str_or_def str_or_opt_def num_or_opt_def truthy_str_def truthy_num_def
      analyzeDrawingForMaterials_def detail_failed_def)

text \<open>
  C6, as the specification states it, fails on the path of ExtractionView: a file with one scanned
  equipment whose detail call fails gives a record with no material lines whose status is
  complete, not error.
\<close>

theorem C6_legacy_status_counterexample:
  "snd (processQueue [(queued drawing_A, Inr [(tank_scan, Inl DetailError)])]) =
     Some [\<lparr>tag = ''V-1'', name = Some ''Tank'', eq_specification = None, mainMaterial = None,
             designWeight = None, pageRange = None, sourceFileId = None, materials = [],
             drawings = [''data:application/pdf;base64,QUE=''], status = Complete\<rparr>]"
  by (simp add: processQueue_def process_file_def analyzeDrawingForMaterials_def queued_def
      drawing_A_def tank_scan_def detail_failed_def consolidate_def tagKey_def create_new_def
      rawItems_def enumerate_eq_zip Let_def)

section \<open>Properties of the pricing lookup\<close>

lemma set_update_subset: "set (AList.update k v al) \<subseteq> insert (k, v) (set al)"
  by (induction al) auto

lemma set_insert_index: "set (insert_index k v obj) = insert (k, v) (set obj)"
  by (induction obj) (auto split: if_splits)

lemma set_obj_set: "set (obj_set k v obj) \<subseteq> insert (k, v) (set obj)"
  using set_update_subset [of k v obj] by (auto simp add: obj_set_def set_insert_index)

lemma stored_prices:
  "(k, v) \<in> set (foldl (\<lambda>priceMap p.
                          case (p_material p, p_pricePerKg p) of
                            (Some m, Some v) \<Rightarrow>
                              if m \<noteq> [] \<and> v \<noteq> 0 then obj_set m v priceMap else priceMap
                          | _ \<Rightarrow> priceMap) acc ps) \<Longrightarrow>
   (k, v) \<in> set acc
   \<or> (k \<noteq> [] \<and> v \<noteq> 0 \<and> (\<exists>p \<in> set ps. p_material p = Some k \<and> p_pricePerKg p = Some v))"
proof (induction ps arbitrary: acc)
  case Nil
  then show ?case by simp
next
  case (Cons p ps)
  let ?step = "\<lambda>priceMap p.
      case (p_material p, p_pricePerKg p) of
        (Some m, Some v) \<Rightarrow> if m \<noteq> [] \<and> v \<noteq> (0::real) then obj_set m v priceMap else priceMap
      | _ \<Rightarrow> priceMap"
  from Cons.prems have "(k, v) \<in> set (foldl ?step (?step acc p) ps)" by simp
  from Cons.IH [OF this] consider "(k, v) \<in> set (?step acc p)"
    | "k \<noteq> [] \<and> v \<noteq> 0 \<and> (\<exists>p \<in> set ps. p_material p = Some k \<and> p_pricePerKg p = Some v)"
    by blast
  then show ?case
  proof cases
    case 1
    then show ?thesis
      using set_obj_set by (fastforce split: option.splits if_splits)
  next
    case 2
    then show ?thesis by auto
  qed
qed

lemma findMaterialPrices_stored:
  assumes "(k, v) \<in> set (findMaterialPrices names response)"
  shows "k \<noteq> [] \<and> v \<noteq> 0
    \<and> (\<exists>ps. response = Inr (Some ps)
          \<and> (\<exists>p \<in> set ps. p_material p = Some k \<and> p_pricePerKg p = Some v))"
proof (cases response)
  case (Inl err)
  with assms show ?thesis by (simp add: findMaterialPrices_def split: if_splits)
next
  case (Inr data)
  show ?thesis
  proof (cases data)
    case None
    with assms Inr show ?thesis by (simp add: findMaterialPrices_def split: if_splits)
  next
    case (Some ps)
    with assms Inr have "(k, v) \<in> set (foldl (\<lambda>priceMap p.
                          case (p_material p, p_pricePerKg p) of
                            (Some m, Some v) \<Rightarrow>
                              if m \<noteq> [] \<and> v \<noteq> 0 then obj_set m v priceMap else priceMap
                          | _ \<Rightarrow> priceMap) [] ps)"
      by (simp add: findMaterialPrices_def split: if_splits)
    from stored_prices [OF this] show ?thesis
      by (simp add: Inr Some)
  qed
qed

lemma find_first:
  "find P xs = Some x \<Longrightarrow> \<exists>ys zs. xs = ys @ x # zs \<and> P x \<and> (\<forall>y \<in> set ys. \<not> P y)"
proof (induction xs)
  case Nil
  then show ?case by simp
next
  case (Cons a xs)
  show ?case
  proof (cases "P a")
    case True
    with Cons.prems have "a = x" by simp
    with True have "a # xs = [] @ x # xs \<and> P x \<and> (\<forall>y \<in> set []. \<not> P y)" by simp
    then show ?thesis by blast
  next
    case False
    with Cons.prems have "find P xs = Some x" by simp
    from Cons.IH [OF this] obtain ys zs where
      "xs = ys @ x # zs" "P x" "\<forall>y \<in> set ys. \<not> P y" by blast
    with False have "a # xs = (a # ys) @ x # zs \<and> P x \<and> (\<forall>y \<in> set (a # ys). \<not> P y)"
      by simp
    then show ?thesis by blast
  qed
qed

text \<open>What \<open>handleFetchPrices\<close> does with one line, given the price map.\<close>

lemma handleFetchPrices_nth:
  fixes response :: pricing and lc :: "string \<Rightarrow> string"
  assumes "i < length items"
  defines "prices \<equiv>
      findMaterialPrices (filter (\<lambda>m. m \<noteq> ''N/A'' \<and> m \<noteq> []) (map material items)) response"
  defines "P \<equiv> \<lambda>key. sublist (lc key) (lc (material (items ! i)))
      \<or> sublist (lc (material (items ! i))) (lc key)"
  shows "handleFetchPrices lc response items ! i =
     (case find P (Object_keys prices) of
        None \<Rightarrow> items ! i
      | Some key \<Rightarrow>
          (case map_of prices key of
             Some price \<Rightarrow> (items ! i)\<lparr>unitPrice := price\<rparr>
           | None \<Rightarrow> items ! i))"
proof -
  have nonempty: "key \<noteq> []" if "find P (Object_keys prices) = Some key" for key
  proof -
    from find_first [OF that] have "key \<in> fst ` set prices"
      by (auto simp add: Object_keys_def) (metis in_set_conv_decomp list.set_map)
    then obtain v where "(key, v) \<in> set prices" by auto
    then show ?thesis
      unfolding prices_def using findMaterialPrices_stored by blast
  qed
  show ?thesis
    using assms(1) nonempty
    by (simp add: handleFetchPrices_def Let_def js_includes_def P_def [symmetric]
        prices_def [symmetric] split: option.splits)
qed

lemma handleFetchPrices_length: "length (handleFetchPrices lc response items) = length items"
  by (simp add: handleFetchPrices_def Let_def)

lemma handleFetchPrices_no_prices:
  assumes "findMaterialPrices (filter (\<lambda>m. m \<noteq> ''N/A'' \<and> m \<noteq> []) (map material items)) response
           = []"
  shows "handleFetchPrices lc response items = items"
  using assms by (simp add: handleFetchPrices_def Let_def Object_keys_def)

text \<open>
  C7. With \<open>prices\<close> the map that \<open>findMaterialPrices\<close> returns for the material names
  of the lines: a line for which some key of the map and its material contain one another,
  after \<open>toLowerCase\<close>, gets the price of the first such key in the order of
  \<open>Object.keys\<close> and is otherwise unchanged; a line with no such key is unchanged; and
  when the lookup throws the map is empty and all lines are unchanged.
\<close>

theorem C7_price_matching:
  fixes response :: pricing and lc :: "string \<Rightarrow> string" and items :: "material_item list"
  defines "prices \<equiv>
      findMaterialPrices (filter (\<lambda>m. m \<noteq> ''N/A'' \<and> m \<noteq> []) (map material items)) response"
  shows "length (handleFetchPrices lc response items) = length items
    \<and> (\<forall>i < length items.
          if \<exists>key \<in> set (Object_keys prices). contain_one_another lc key (material (items ! i))
          then \<exists>before key after price.
                 Object_keys prices = before @ key # after
                 \<and> (\<forall>k \<in> set before. \<not> contain_one_another lc k (material (items ! i)))
                 \<and> contain_one_another lc key (material (items ! i))
                 \<and> map_of prices key = Some price
                 \<and> handleFetchPrices lc response items ! i = (items ! i)\<lparr>unitPrice := price\<rparr>
          else handleFetchPrices lc response items ! i = items ! i)
    \<and> ((\<exists>err. response = Inl err) \<longrightarrow>
          prices = [] \<and> handleFetchPrices lc response items = items)"
proof -
  have line: "if \<exists>key \<in> set (Object_keys prices). contain_one_another lc key (material (items ! i))
          then \<exists>before key after price.
                 Object_keys prices = before @ key # after
                 \<and> (\<forall>k \<in> set before. \<not> contain_one_another lc k (material (items ! i)))
                 \<and> contain_one_another lc key (material (items ! i))
                 \<and> map_of prices key = Some price
                 \<and> handleFetchPrices lc response items ! i = (items ! i)\<lparr>unitPrice := price\<rparr>
          else handleFetchPrices lc response items ! i = items ! i"
    if i: "i < length items" for i
  proof -
    let ?P = "\<lambda>key. sublist (lc key) (lc (material (items ! i)))
        \<or> sublist (lc (material (items ! i))) (lc key)"
    have P: "?P key = contain_one_another lc key (material (items ! i))" for key
      by (simp add: contain_one_another_def)
    note nth = handleFetchPrices_nth [OF i, of lc response, folded prices_def]
    show ?thesis
    proof (cases "find ?P (Object_keys prices)")
      case None
      then have "\<not> (\<exists>key \<in> set (Object_keys prices). ?P key)"
        by (simp add: find_None_iff)
      with None nth show ?thesis
        by (simp add: P)
    next
      case (Some key)
      from find_first [OF Some] obtain before after where split:
        "Object_keys prices = before @ key # after" "?P key" "\<forall>y \<in> set before. \<not> ?P y"
        by blast
      then have "key \<in> fst ` set prices"
        by (metis Object_keys_def in_set_conv_decomp list.set_map)
      then obtain price where price: "map_of prices key = Some price"
        by (cases "map_of prices key") (simp_all add: map_of_eq_None_iff)
      with Some nth have "handleFetchPrices lc response items ! i = (items ! i)\<lparr>unitPrice := price\<rparr>"
        by simp
      with split price have "Object_keys prices = before @ key # after
          \<and> (\<forall>k \<in> set before. \<not> contain_one_another lc k (material (items ! i)))
          \<and> contain_one_another lc key (material (items ! i))
          \<and> map_of prices key = Some price
          \<and> handleFetchPrices lc response items ! i = (items ! i)\<lparr>unitPrice := price\<rparr>"
        by (simp add: P)
      moreover have "\<exists>key \<in> set (Object_keys prices). contain_one_another lc key (material (items ! i))"
        using split(1,2) by (auto simp add: P)
      ultimately show ?thesis by auto
    qed
  qed
  have failure: "prices = [] \<and> handleFetchPrices lc response items = items"
    if "\<exists>err. response = Inl err"
  proof -
    from that have "prices = []"
      by (auto simp add: prices_def findMaterialPrices_def)
    then show ?thesis
      using handleFetchPrices_no_prices [of items response lc] by (simp add: prices_def)
  qed
  show ?thesis
  proof (intro conjI allI impI)
    show "length (handleFetchPrices lc response items) = length items"
      by (rule handleFetchPrices_length)
  qed (use line failure in blast)+
qed

theorem C7_price_matching_run:
  "handleFetchPrices ascii_lower (Inr (Some [quote_q345])) scenario_materials =
     [\<lparr>item_name = ''Shell'', material = ''Q345R'', item_specification = ''-'',
       weight = 10, quantity = 2, unitPrice = 4.5, totalPrice = 0, category = ''plate''\<rparr>,
      \<lparr>item_name = ''Nozzle N1'', material = ''S30408'', item_specification = ''-'',
       weight = 3, quantity = 1, unitPrice = 20, totalPrice = 0, category = ''pipe''\<rparr>]
   \<and> handleFetchPrices ascii_lower (Inl PricingError) scenario_materials = scenario_materials"
  using C7_price_matching [of ascii_lower "Inr (Some [quote_q345])" scenario_materials]
    C7_price_matching [of ascii_lower "Inl PricingError" scenario_materials]
  by (simp add: handleFetchPrices_def findMaterialPrices_def scenario_materials_def
      quote_q345_def obj_set_def is_array_index_def is_digit_def Object_keys_def
      js_includes_def ascii_lower_def sublist_code Let_def)

text \<open>
  C10. Every pair that \<open>findMaterialPrices\<close> stores comes from an entry of the response
  whose material is present and not empty and whose price is present and not 0. So a line
  that \<open>handleFetchPrices\<close> returns is the line it was, or that line with a price other
  than 0; and when every entry of the response lacks its material or has a price that is
  absent or 0, no line changes.
\<close>

theorem C10_prices_never_zero:
  fixes response :: pricing and lc :: "string \<Rightarrow> string" and items :: "material_item list"
  shows "(\<forall>k v. (k, v) \<in> set (findMaterialPrices names response) \<longrightarrow>
            k \<noteq> [] \<and> v \<noteq> 0
            \<and> (\<exists>ps. response = Inr (Some ps)
                  \<and> (\<exists>p \<in> set ps. p_material p = Some k \<and> p_pricePerKg p = Some v)))
    \<and> (\<forall>i < length items.
          handleFetchPrices lc response items ! i = items ! i
          \<or> (\<exists>price. price \<noteq> 0
                \<and> handleFetchPrices lc response items ! i = (items ! i)\<lparr>unitPrice := price\<rparr>))
    \<and> (\<forall>ps. response = Inr (Some ps)
              \<and> (\<forall>p \<in> set ps. p_material p = None \<or> p_pricePerKg p = None
                                \<or> p_pricePerKg p = Some 0) \<longrightarrow>
          handleFetchPrices lc response items = items)"
proof -
  let ?names = "filter (\<lambda>m. m \<noteq> ''N/A'' \<and> m \<noteq> []) (map material items)"
  let ?prices = "findMaterialPrices ?names response"
  have line: "handleFetchPrices lc response items ! i = items ! i
          \<or> (\<exists>price. price \<noteq> 0
                \<and> handleFetchPrices lc response items ! i = (items ! i)\<lparr>unitPrice := price\<rparr>)"
    if i: "i < length items" for i
  proof -
    let ?P = "\<lambda>key. sublist (lc key) (lc (material (items ! i)))
        \<or> sublist (lc (material (items ! i))) (lc key)"
    note nth = handleFetchPrices_nth [OF i, of lc response]
    show ?thesis
    proof (cases "find ?P (Object_keys ?prices)")
      case None
      with nth show ?thesis by simp
    next
      case (Some key)
      show ?thesis
      proof (cases "map_of ?prices key")
        case None
        with Some nth show ?thesis by simp
      next
        case (Some price)
        then have "(key, price) \<in> set ?prices" by (rule map_of_SomeD)
        then have "price \<noteq> 0" using findMaterialPrices_stored by blast
        with Some \<open>find ?P (Object_keys ?prices) = Some key\<close> nth show ?thesis by auto
      qed
    qed
  qed
  have none: "handleFetchPrices lc response items = items"
    if "response = Inr (Some ps)"
      and "\<forall>p \<in> set ps. p_material p = None \<or> p_pricePerKg p = None \<or> p_pricePerKg p = Some 0"
    for ps
  proof -
    have "?prices = []"
    proof (cases ?prices)
      case Nil
      then show ?thesis .
    next
      case (Cons kv rest)
      then have "(fst kv, snd kv) \<in> set ?prices" by simp
      from findMaterialPrices_stored [OF this] that show ?thesis by auto
    qed
    then show ?thesis
      by (rule handleFetchPrices_no_prices)
  qed
  show ?thesis
    using findMaterialPrices_stored [of _ _ names response] line none by blast
qed

theorem C10_prices_never_zero_run:
  "findMaterialPrices [''Q345R'', ''S30408'']
      (Inr (Some [quote_zero, quote_unnamed, quote_q345, quote_unpriced])) = [(''q345'', 4.5)]
   \<and> handleFetchPrices ascii_lower (Inr (Some [quote_zero, quote_unnamed, quote_unpriced]))
        scenario_materials = scenario_materials"
  using C10_prices_never_zero [of "[''Q345R'', ''S30408'']"
      "Inr (Some [quote_zero, quote_unnamed, quote_q345, quote_unpriced])" scenario_materials
      ascii_lower]
    C10_prices_never_zero [of "[''Q345R'', ''S30408'']"
      "Inr (Some [quote_zero, quote_unnamed, quote_unpriced])" scenario_materials ascii_lower]
  by (simp add: handleFetchPrices_def findMaterialPrices_def scenario_materials_def
      quote_q345_def quote_zero_def quote_unnamed_def quote_unpriced_def obj_set_def
      is_array_index_def is_digit_def Object_keys_def Let_def)

end
